theory Spec2Isabelle
  imports Complex_Main "HOL-Library.Multiset" "HOL-Library.Product_Lexorder"
    "HOL-Library.Log_Nat"
begin

section \<open>Numbers\<close>

text \<open>
  The scripts compute on pandas float64 columns and on Python floats. Finite values are
  modelled as exact reals: rounding in the last binary digit is not part of that model.
  Layer 3 of the screening is modelled a second time with the rounding of float64.
  What the two kinds of division do at a zero denominator is part of it: a vectorised
  pandas division yields an infinity or NaN and goes on, a division of Python scalars
  raises.
\<close>

datatype npfloat = Fin real | PInf | NInf | NaN

definition np_div :: "real \<Rightarrow> real \<Rightarrow> npfloat" where
  "np_div a b =
     (if b \<noteq> 0 then Fin (a / b)
      else if a > 0 then PInf
      else if a < 0 then NInf
      else NaN)"

fun np_mul :: "npfloat \<Rightarrow> real \<Rightarrow> npfloat" where
  "np_mul (Fin x) c = Fin (x * c)"
| "np_mul PInf c = (if c > 0 then PInf else if c < 0 then NInf else NaN)"
| "np_mul NInf c = (if c > 0 then NInf else if c < 0 then PInf else NaN)"
| "np_mul NaN c = NaN"

text \<open>Comparisons of a column with a threshold; every comparison with NaN is false.\<close>

fun np_ge :: "npfloat \<Rightarrow> real \<Rightarrow> bool" where
  "np_ge (Fin x) t = (x \<ge> t)"
| "np_ge PInf t = True"
| "np_ge NInf t = False"
| "np_ge NaN t = False"

fun np_le :: "npfloat \<Rightarrow> real \<Rightarrow> bool" where
  "np_le (Fin x) t = (x \<le> t)"
| "np_le PInf t = False"
| "np_le NInf t = True"
| "np_le NaN t = False"

text \<open>\<open>round(x, 2)\<close> and \<open>Series.round(2)\<close>: two decimals, halves to the even neighbour.\<close>

definition py_round2 :: "real \<Rightarrow> real" where
  "py_round2 x =
     (let y = x * 100; f = \<lfloor>y\<rfloor>; d = y - of_int f
      in (if d < 1/2 then of_int f
          else if d > 1/2 then of_int (f + 1)
          else if even f then of_int f else of_int (f + 1)) / 100)"

fun np_round2 :: "npfloat \<Rightarrow> npfloat" where
  "np_round2 (Fin x) = Fin (py_round2 x)"
| "np_round2 v = v"

text \<open>\<open>int(x)\<close> on a finite float truncates towards zero.\<close>

definition py_int :: "real \<Rightarrow> int" where
  "py_int x = (if x \<ge> 0 then \<lfloor>x\<rfloor> else \<lceil>x\<rceil>)"

datatype py_error = ZeroDivisionError

definition py_div :: "real \<Rightarrow> real \<Rightarrow> py_error + real" where
  "py_div a b = (if b = 0 then Inl ZeroDivisionError else Inr (a / b))"

text \<open>
  Where a property depends on the last binary digit, the rounding of float64 is modelled
  too: \<open>f64\<close> rounds a real to the nearest number with a 53-bit significand, ties to
  the even significand, as every IEEE operation does with its exact result. \<open>spacing\<close>
  is the distance between neighbouring such numbers at the magnitude of its argument.
  The exponent range is not bounded: overflow and subnormal numbers are left out.
\<close>

definition half_even :: "real \<Rightarrow> int" where
  "half_even y =
     (let f = \<lfloor>y\<rfloor>; d = y - of_int f
      in if d < 1/2 then f else if d > 1/2 then f + 1 else if even f then f else f + 1)"

definition spacing :: "real \<Rightarrow> real" where
  "spacing x =
     (if \<bar>x\<bar> \<ge> 1 then
        (let k = floorlog 2 (nat \<lfloor>\<bar>x\<bar>\<rfloor>)
         in if k \<ge> 53 then 2 ^ (k - 53) else 1 / 2 ^ (53 - k))
      else 1 / 2 ^ (floorlog 2 (nat (\<lceil>1 / \<bar>x\<bar>\<rceil> - 1)) + 52))"

definition f64 :: "real \<Rightarrow> real" where
  "f64 x = (if x = 0 then 0 else of_int (half_even (x / spacing x)) * spacing x)"

text \<open>The column operations of pandas with the rounding of each result.\<close>

definition np_div_f64 :: "real \<Rightarrow> real \<Rightarrow> npfloat" where
  "np_div_f64 a b =
     (if b \<noteq> 0 then Fin (f64 (a / b))
      else if a > 0 then PInf
      else if a < 0 then NInf
      else NaN)"

fun np_mul_f64 :: "npfloat \<Rightarrow> real \<Rightarrow> npfloat" where
  "np_mul_f64 (Fin x) c = Fin (f64 (x * c))"
| "np_mul_f64 PInf c = (if c > 0 then PInf else if c < 0 then NInf else NaN)"
| "np_mul_f64 NInf c = (if c > 0 then NInf else if c < 0 then PInf else NaN)"
| "np_mul_f64 NaN c = NaN"

text \<open>\<open>row.get(key, default)\<close> on a row whose column may be missing.\<close>

fun get_or :: "'a option \<Rightarrow> 'a \<Rightarrow> 'a" where
  "get_or None d = d"
| "get_or (Some v) d = v"


section \<open>Layer 2 of the system: the screening engine (\<open>2_screener.py\<close>)\<close>

text \<open>
  The thresholds of one run. \<open>load_filters\<close> returns a nested dictionary with the same
  keys for every mode; the profile of the standard mode is read from
  \<open>config/filters.json\<close>, which is a parameter here.
\<close>

record filters =
  mode :: string
  min_volume :: real
  min_price :: real
  max_price :: real
  rsi_min :: real
  rsi_max :: real
  adx_min :: real
  volume_surge :: real
  max_extension :: real
  min_rr :: real

definition load_filters :: "filters \<Rightarrow> string \<Rightarrow> filters" where
  "load_filters BASE_FILTERS m =
     (if m = ''testing'' then
        \<lparr>mode = ''testing'', min_volume = 100000, min_price = 50, max_price = 10000,
         rsi_min = 40, rsi_max = 80, adx_min = 10, volume_surge = 8/10,
         max_extension = 25, min_rr = 12/10\<rparr>
      else if m = ''relaxed'' then
        \<lparr>mode = ''relaxed'', min_volume = 200000, min_price = 100, max_price = 5000,
         rsi_min = 45, rsi_max = 75, adx_min = 15, volume_surge = 11/10,
         max_extension = 15, min_rr = 18/10\<rparr>
      else BASE_FILTERS\<lparr>mode := ''standard''\<rparr>)"

text \<open>
  A row of the data frame that enters Layer 3, with the columns Layer 3 reads, and the
  rows it builds as it adds its derived columns.
\<close>

record snapshot =
  Symbol :: string
  Close :: real
  High_20D :: real
  MA20 :: real
  Support :: real

record extended = snapshot +
  Pct_Above_MA20 :: npfloat

record levelled = extended +
  Entry :: real
  SL :: real
  Risk_Per_Share :: real
  Target :: real
  RR :: npfloat

record shortlisted = levelled +
  Risk_Pct :: npfloat

definition add_extension :: "snapshot \<Rightarrow> extended" where
  "add_extension r =
     snapshot.extend r
       (extended.fields (np_mul (np_div (Close r - MA20 r) (MA20 r)) 100))"

definition add_levels :: "extended \<Rightarrow> levelled" where
  "add_levels r =
     (let entry = Close r;
          sl = Support r * (995 / 1000);
          risk_per_share = entry - sl;
          target = entry + 2 * risk_per_share;
          rr = np_div (target - entry) risk_per_share
      in extended.extend r (levelled.fields entry sl risk_per_share target rr))"

definition add_risk_pct :: "levelled \<Rightarrow> shortlisted" where
  "add_risk_pct r =
     levelled.extend r
       (shortlisted.fields (np_mul (np_div (Risk_Per_Share r) (Entry r)) 100))"

definition layer3_filter :: "snapshot list \<Rightarrow> filters \<Rightarrow> shortlisted list" where
  "layer3_filter df F =
     (let df1 = filter (\<lambda>r. Close r > High_20D r) df;
          df2 = map add_extension df1;
          df3 = filter (\<lambda>r. np_le (Pct_Above_MA20 r) (max_extension F)) df2;
          df4 = map add_levels df3;
          df5 = filter (\<lambda>r. np_ge (RR r) (min_rr F)) df4;
          df6 = map add_risk_pct df5
      in if mode F = ''testing''
         then filter (\<lambda>r. np_le (Risk_Pct r) 12) df6
         else filter (\<lambda>r. np_le (Risk_Pct r) 5) df6)"

text \<open>
  Layer 3 once more, as pandas computes it on float64 columns: the same steps in the same
  order, with every arithmetic result rounded by \<open>f64\<close>. The literal \<open>0.995\<close> is the
  float64 nearest to it. The columns of the incoming rows are float64 values.
\<close>

definition add_extension_f64 :: "snapshot \<Rightarrow> extended" where
  "add_extension_f64 r =
     snapshot.extend r
       (extended.fields (np_mul_f64 (np_div_f64 (f64 (Close r - MA20 r)) (MA20 r)) 100))"

definition add_levels_f64 :: "extended \<Rightarrow> levelled" where
  "add_levels_f64 r =
     (let entry = Close r;
          sl = f64 (Support r * f64 (995 / 1000));
          risk_per_share = f64 (entry - sl);
          target = f64 (entry + f64 (2 * risk_per_share));
          rr = np_div_f64 (f64 (target - entry)) risk_per_share
      in extended.extend r (levelled.fields entry sl risk_per_share target rr))"

definition add_risk_pct_f64 :: "levelled \<Rightarrow> shortlisted" where
  "add_risk_pct_f64 r =
     levelled.extend r
       (shortlisted.fields (np_mul_f64 (np_div_f64 (Risk_Per_Share r) (Entry r)) 100))"

definition layer3_filter_f64 :: "snapshot list \<Rightarrow> filters \<Rightarrow> shortlisted list" where
  "layer3_filter_f64 df F =
     (let df1 = filter (\<lambda>r. Close r > High_20D r) df;
          df2 = map add_extension_f64 df1;
          df3 = filter (\<lambda>r. np_le (Pct_Above_MA20 r) (max_extension F)) df2;
          df4 = map add_levels_f64 df3;
          df5 = filter (\<lambda>r. np_ge (RR r) (min_rr F)) df4;
          df6 = map add_risk_pct_f64 df5
      in if mode F = ''testing''
         then filter (\<lambda>r. np_le (Risk_Pct r) 12) df6
         else filter (\<lambda>r. np_le (Risk_Pct r) 5) df6)"


section \<open>The position ledger (\<open>trade_tracker.csv\<close>)\<close>

text \<open>
  One row of the ledger, with the columns \<open>load_tracker\<close> declares. \<open>Date\<close> is the
  calendar day of entry as a day number. \<open>ATR\<close> and \<open>T1_Hit\<close> are read with
  \<open>row.get\<close>, so a ledger file without them is allowed for.
\<close>

record position =
  pos_Date :: int
  pos_Stock :: string
  pos_Entry :: real
  pos_SL :: real
  pos_T1 :: real
  pos_T2 :: real
  pos_Quantity :: int
  pos_Position :: real
  pos_Current :: real
  pos_PnL_Rs :: real
  pos_PnL_Pct :: npfloat
  pos_Days_Held :: int
  pos_Status :: string
  pos_Notes :: string
  pos_ATR :: "real option"
  pos_T1_Hit :: "bool option"


section \<open>Layer 3 of the system: analysis and trade setup (\<open>3_analyzer.py\<close>)\<close>

text \<open>\<open>config/settings.json\<close> is not part of the sources: its four values are parameters.\<close>

record config =
  capital :: real
  risk_per_trade_pct :: real
  max_position_pct :: real
  max_concurrent_trades :: int

definition RISK_PER_TRADE :: "config \<Rightarrow> real" where
  "RISK_PER_TRADE cfg = risk_per_trade_pct cfg / 100"

definition MAX_POSITION_PCT :: "config \<Rightarrow> real" where
  "MAX_POSITION_PCT cfg = max_position_pct cfg / 100"

definition MAX_TRADES :: "config \<Rightarrow> int" where
  "MAX_TRADES cfg = max_concurrent_trades cfg"

text \<open>A row of the shortlist file as \<open>iterrows\<close> hands it over: Python scalars.\<close>

record shortlist_row =
  row_Symbol :: string
  row_Entry :: real
  row_SL :: real
  row_Target :: real
  row_RR :: real
  row_Risk_Pct :: real
  row_ATR :: "real option"
  row_Mode :: "string option"

record signal =
  sig_Date :: int
  sig_Stock :: string
  sig_Entry :: real
  sig_SL :: real
  sig_T1 :: real
  sig_T2 :: real
  sig_RR :: real
  sig_Quantity :: int
  sig_Position :: real
  sig_Risk_Rs :: real
  sig_Risk_Pct :: real
  sig_Charges :: real
  sig_Breakeven :: real
  sig_Net_Expectancy_Pct :: real
  sig_ATR :: real
  sig_Mode :: string

definition check_existing_positions :: "position list option \<Rightarrow> nat" where
  "check_existing_positions file =
     (case file of
        None \<Rightarrow> 0
      | Some tracker \<Rightarrow> length (filter (\<lambda>p. pos_Status p = ''ACTIVE'') tracker))"

definition calculate_position_size ::
  "config \<Rightarrow> real \<Rightarrow> real \<Rightarrow> real \<Rightarrow> py_error + (int \<times> real)" where
  "calculate_position_size cfg entry sl cap =
     (let max_risk_amount = cap * RISK_PER_TRADE cfg;
          risk_per_share = entry - sl
      in if risk_per_share \<le> 0 then Inr (0, 0)
         else
           (let qty = py_int (max_risk_amount / risk_per_share);
                position_value = of_int qty * entry;
                max_position = cap * MAX_POSITION_PCT cfg
            in if position_value > max_position
               then (case py_div max_position entry of
                       Inl e \<Rightarrow> Inl e
                     | Inr q \<Rightarrow> Inr (py_int q, of_int (py_int q) * entry))
               else Inr (qty, position_value)))"

definition calculate_charges :: "real \<Rightarrow> real" where
  "calculate_charges position_value =
     (let brokerage_buy = min (position_value * 0.0005) 20;
          exchange_txn = position_value * 0.0000297;
          gst = (brokerage_buy + exchange_txn) * 0.18;
          stamp = position_value * 0.00015;
          sebi = position_value * 0.000001;
          buy = brokerage_buy + exchange_txn + gst + stamp + sebi;
          brokerage_sell = min (position_value * 0.0005) 20;
          stt = position_value * 0.001;
          exchange_txn_sell = position_value * 0.0000297;
          gst_sell = (brokerage_sell + exchange_txn_sell) * 0.18;
          dp = 18.5 * 1.18;
          sell = brokerage_sell + stt + exchange_txn_sell + gst_sell + dp
      in py_round2 (buy + sell))"

text \<open>
  The break-even price of a sized row, as the loop of \<open>generate_signals\<close> computes it.
  The division raises when the notional is zero.
\<close>

definition min_target_of :: "real \<Rightarrow> real \<Rightarrow> py_error + real" where
  "min_target_of entry position_value =
     (let charges = calculate_charges position_value
      in case py_div charges position_value of
           Inl e \<Rightarrow> Inl e
         | Inr q \<Rightarrow>
             (let breakeven_pct = q * 100
              in Inr (entry * (1 + breakeven_pct / 100 + 0.02))))"

text \<open>The body of the loop of \<open>generate_signals\<close>: no signal, one signal, or an exception.\<close>

definition generate_signals_row ::
  "config \<Rightarrow> int \<Rightarrow> shortlist_row \<Rightarrow> py_error + signal option" where
  "generate_signals_row cfg today row =
     (case calculate_position_size cfg (row_Entry row) (row_SL row) (capital cfg) of
        Inl e \<Rightarrow> Inl e
      | Inr (qty, position_value) \<Rightarrow>
          if qty = 0 then Inr None
          else
            (case min_target_of (row_Entry row) position_value of
               Inl e \<Rightarrow> Inl e
             | Inr min_target \<Rightarrow>
                 if row_Target row < min_target then Inr None
                 else
                   (let charges = calculate_charges position_value;
                        expected_profit = (row_Target row - row_Entry row) * of_int qty;
                        net_profit = expected_profit - charges
                    in case py_div net_profit position_value of
                         Inl e \<Rightarrow> Inl e
                       | Inr q \<Rightarrow>
                           (let net_expectancy_pct = q * 100;
                                atr = get_or (row_ATR row) 20;
                                t2 = py_round2 (row_Target row + 1.5 * atr)
                            in Inr (Some
                                 \<lparr>sig_Date = today,
                                  sig_Stock = row_Symbol row,
                                  sig_Entry = row_Entry row,
                                  sig_SL = row_SL row,
                                  sig_T1 = row_Target row,
                                  sig_T2 = t2,
                                  sig_RR = row_RR row,
                                  sig_Quantity = qty,
                                  sig_Position = position_value,
                                  sig_Risk_Rs =
                                    py_round2 ((row_Entry row - row_SL row) * of_int qty),
                                  sig_Risk_Pct = row_Risk_Pct row,
                                  sig_Charges = charges,
                                  sig_Breakeven = py_round2 min_target,
                                  sig_Net_Expectancy_Pct = py_round2 net_expectancy_pct,
                                  sig_ATR = atr,
                                  sig_Mode = get_or (row_Mode row) ''unknown''\<rparr>)))))"

fun generate_signals ::
  "config \<Rightarrow> int \<Rightarrow> shortlist_row list \<Rightarrow> py_error + signal list" where
  "generate_signals cfg today [] = Inr []"
| "generate_signals cfg today (row # df) =
     (case generate_signals_row cfg today row of
        Inl e \<Rightarrow> Inl e
      | Inr s \<Rightarrow>
          (case generate_signals cfg today df of
             Inl e \<Rightarrow> Inl e
           | Inr signals \<Rightarrow> Inr (case s of None \<Rightarrow> signals | Some x \<Rightarrow> x # signals)))"

text \<open>
  \<open>DataFrame.head(n)\<close>: the first \<open>n\<close> rows, and all but the last \<open>-n\<close> rows for a
  negative \<open>n\<close>. \<open>sort_values\<close> on two descending columns is a stable sort.
\<close>

definition head_df :: "'a list \<Rightarrow> int \<Rightarrow> 'a list" where
  "head_df xs n = (if n \<ge> 0 then take (nat n) xs else take (length xs - nat (- n)) xs)"

definition rank_key :: "signal \<Rightarrow> real \<times> real" where
  "rank_key s = (- sig_RR s, - sig_Net_Expectancy_Pct s)"

text \<open>
  The order of the ranking in words: a higher reward:risk first, and among equal
  reward:risk the higher net expectancy first.
\<close>

definition outranks :: "signal \<Rightarrow> signal \<Rightarrow> bool" where
  "outranks a b =
     (sig_RR a > sig_RR b
      \<or> (sig_RR a = sig_RR b \<and> sig_Net_Expectancy_Pct a \<ge> sig_Net_Expectancy_Pct b))"

definition select_top_trades :: "signal list \<Rightarrow> int \<Rightarrow> signal list" where
  "select_top_trades signals max_trades =
     (if int (length signals) \<le> max_trades then signals
      else head_df (sort_key rank_key signals) max_trades)"

text \<open>
  \<open>main\<close> up to the signal file it writes: \<open>None\<close> when it returns before writing one.
\<close>

definition analyzer_main ::
  "config \<Rightarrow> int \<Rightarrow> shortlist_row list \<Rightarrow> position list option
     \<Rightarrow> py_error + signal list option" where
  "analyzer_main cfg today df tracker_file =
     (if df = [] then Inr None
      else
        (let active = check_existing_positions tracker_file;
             available = MAX_TRADES cfg - int active
         in if available \<le> 0 then Inr None
            else
              (case generate_signals cfg today df of
                 Inl e \<Rightarrow> Inl e
               | Inr signals \<Rightarrow>
                   if signals = [] then Inr None
                   else Inr (Some (select_top_trades signals available)))))"


section \<open>Layer 5 of the system: position tracking (\<open>5_tracker.py\<close>)\<close>

text \<open>
  A row of the day's signal file as \<open>add_new_trades\<close> reads it; \<open>T2\<close> and \<open>ATR\<close> are
  read with \<open>row.get\<close>.
\<close>

record signal_row =
  new_Stock :: string
  new_Entry :: real
  new_SL :: real
  new_T1 :: real
  new_T2 :: "real option"
  new_Quantity :: int
  new_Position :: real
  new_ATR :: "real option"

text \<open>
  What one run of the tracker gets from outside: the day's signal file (\<open>None\<close> when
  reading it fails or a column read without a default is missing: the exception is
  caught before any row is added), the price source (\<open>None\<close> for a symbol whose fetch
  fails or returns no bar) and the current day.
\<close>

record tick_input =
  signals_file :: "signal_row list option"
  fetch_close :: "string \<Rightarrow> real option"
  today :: int

text \<open>An action item; its message is formatted text for the console and is left out.\<close>

datatype rule = SL_HIT | BREAKEVEN | T1_HIT | MONTH_END

record action =
  act_Stock :: string
  act_Rule :: rule

definition load_tracker :: "position list option \<Rightarrow> position list" where
  "load_tracker file = (case file of None \<Rightarrow> [] | Some df \<Rightarrow> df)"

definition update_current_prices ::
  "position list \<Rightarrow> (string \<Rightarrow> real option) \<Rightarrow> position list" where
  "update_current_prices df fetch =
     map (\<lambda>p. if pos_Status p = ''ACTIVE''
               then (case fetch (pos_Stock p @ ''.NS'') of
                       None \<Rightarrow> p
                     | Some c \<Rightarrow> p\<lparr>pos_Current := py_round2 c\<rparr>)
               else p) df"

definition calculate_pnl :: "position list \<Rightarrow> position list" where
  "calculate_pnl df =
     map (\<lambda>p. p\<lparr>pos_PnL_Rs :=
                   py_round2 ((pos_Current p - pos_Entry p) * of_int (pos_Quantity p)),
                 pos_PnL_Pct :=
                   np_round2 (np_mul (np_div (pos_Current p - pos_Entry p) (pos_Entry p)) 100)\<rparr>)
       df"

text \<open>The body of the loop of \<open>check_triggers\<close> for one row whose status is ACTIVE.\<close>

definition trigger_row :: "position \<Rightarrow> action list \<times> position" where
  "trigger_row row =
     (if pos_Current row \<le> pos_SL row then
        ([\<lparr>act_Stock = pos_Stock row, act_Rule = SL_HIT\<rparr>], row\<lparr>pos_Status := ''CLOSED''\<rparr>)
      else
        (let (a1, r1) =
               (if np_ge (pos_PnL_Pct row) 3 \<and> pos_SL row < pos_Entry row
                then ([\<lparr>act_Stock = pos_Stock row, act_Rule = BREAKEVEN\<rparr>],
                      row\<lparr>pos_SL := pos_Entry row\<rparr>)
                else ([], row));
             (a2, r2) =
               (if pos_Current row \<ge> pos_T1 row \<and> \<not> get_or (pos_T1_Hit row) False
                then (let trail_sl =
                            py_round2 (pos_Current row - 1.5 * get_or (pos_ATR row) 20)
                      in ([\<lparr>act_Stock = pos_Stock row, act_Rule = T1_HIT\<rparr>],
                          r1\<lparr>pos_T1_Hit := Some True, pos_SL := max (pos_SL r1) trail_sl\<rparr>))
                else ([], r1));
             a3 =
               (if pos_Days_Held row \<ge> 25
                then [\<lparr>act_Stock = pos_Stock row, act_Rule = MONTH_END\<rparr>]
                else [])
         in (a1 @ a2 @ a3, r2)))"

text \<open>
  \<open>check_triggers\<close> visits the rows whose status is ACTIVE, in ledger order; each visit
  reads and writes its own row only. The first function keeps the actions of each row
  apart, the second returns what the source returns.
\<close>

definition check_triggers_rows :: "position list \<Rightarrow> (action list \<times> position) list" where
  "check_triggers_rows df =
     map (\<lambda>p. if pos_Status p = ''ACTIVE'' then trigger_row p else ([], p)) df"

definition check_triggers :: "position list \<Rightarrow> action list \<times> position list" where
  "check_triggers df =
     (concat (map fst (check_triggers_rows df)), map snd (check_triggers_rows df))"

definition new_position :: "int \<Rightarrow> signal_row \<Rightarrow> position" where
  "new_position day row =
     \<lparr>pos_Date = day,
      pos_Stock = new_Stock row,
      pos_Entry = new_Entry row,
      pos_SL = new_SL row,
      pos_T1 = new_T1 row,
      pos_T2 = get_or (new_T2 row) 0,
      pos_Quantity = new_Quantity row,
      pos_Position = new_Position row,
      pos_Current = new_Entry row,
      pos_PnL_Rs = 0,
      pos_PnL_Pct = Fin 0,
      pos_Days_Held = 0,
      pos_Status = ''ACTIVE'',
      pos_Notes = [],
      pos_ATR = Some (get_or (new_ATR row) 20),
      pos_T1_Hit = Some False\<rparr>"

definition add_new_trades ::
  "position list \<Rightarrow> signal_row list option \<Rightarrow> int \<Rightarrow> position list" where
  "add_new_trades tracker file day =
     (case file of
        None \<Rightarrow> tracker
      | Some signals \<Rightarrow> foldl (\<lambda>tracker row. tracker @ [new_position day row]) tracker signals)"

definition update_days_held :: "position list \<Rightarrow> int \<Rightarrow> position list" where
  "update_days_held df day =
     map (\<lambda>p. if pos_Status p = ''ACTIVE''
               then p\<lparr>pos_Days_Held := day - pos_Date p\<rparr>
               else p) df"

text \<open>
  \<open>main\<close>: the ledger as it stands before \<open>check_triggers\<close>, the per-row outcome of
  \<open>check_triggers\<close>, and the pair of the action items and the ledger written back to
  \<open>trade_tracker.csv\<close>.
\<close>

definition refreshed :: "position list option \<Rightarrow> tick_input \<Rightarrow> position list" where
  "refreshed file inp =
     (let tracker = load_tracker file;
          tracker = add_new_trades tracker (signals_file inp) (today inp);
          tracker = update_current_prices tracker (fetch_close inp);
          tracker = calculate_pnl tracker
      in update_days_held tracker (today inp))"

definition tracker_main_rows ::
  "position list option \<Rightarrow> tick_input \<Rightarrow> (action list \<times> position) list" where
  "tracker_main_rows file inp = check_triggers_rows (refreshed file inp)"

definition tracker_main ::
  "position list option \<Rightarrow> tick_input \<Rightarrow> action list \<times> position list" where
  "tracker_main file inp = check_triggers (refreshed file inp)"

text \<open>The rows \<open>main\<close> prints as the active positions.\<close>

definition active :: "position list \<Rightarrow> position list" where
  "active tracker = filter (\<lambda>p. pos_Status p = ''ACTIVE'') tracker"

text \<open>The first-target flag of a row, as \<open>check_triggers\<close> reads it.\<close>

definition flag :: "position \<Rightarrow> bool" where
  "flag p = get_or (pos_T1_Hit p) False"

text \<open>Successive daily runs, each reading the ledger the previous one wrote.\<close>

fun run_ticks :: "position list \<Rightarrow> tick_input list \<Rightarrow> position list" where
  "run_ticks tracker [] = tracker"
| "run_ticks tracker (inp # inps) = run_ticks (snd (tracker_main (Some tracker) inp)) inps"

text \<open>The number of runs on which a rule is reported for the row at index \<open>i\<close>.\<close>

fun fires :: "rule \<Rightarrow> nat \<Rightarrow> position list \<Rightarrow> tick_input list \<Rightarrow> nat" where
  "fires r i tracker [] = 0"
| "fires r i tracker (inp # inps) =
     (if r \<in> act_Rule ` set (fst (tracker_main_rows (Some tracker) inp ! i)) then 1 else 0)
     + fires r i (snd (tracker_main (Some tracker) inp)) inps"


section \<open>Concrete inputs\<close>

text \<open>
  The account of the end-to-end examples of the specification, some thresholds to stand
  for the configuration file of the standard profile, a shortlist row, a position with
  entry 100, and signals that differ in reward:risk and net expectancy.
\<close>

definition example_config :: config where
  "example_config =
     \<lparr>capital = 100000, risk_per_trade_pct = 1, max_position_pct = 10,
      max_concurrent_trades = 5\<rparr>"

definition example_base_filters :: filters where
  "example_base_filters =
     \<lparr>mode = ''standard'', min_volume = 500000, min_price = 100, max_price = 5000,
      rsi_min = 50, rsi_max = 70, adx_min = 20, volume_surge = 12/10,
      max_extension = 10, min_rr = 2\<rparr>"

definition example_row :: "real \<Rightarrow> real \<Rightarrow> shortlist_row" where
  "example_row sl target =
     \<lparr>row_Symbol = ''ABC'', row_Entry = 100, row_SL = sl, row_Target = target, row_RR = 2,
      row_Risk_Pct = 100 - sl, row_ATR = Some 4, row_Mode = Some ''standard''\<rparr>"

definition example_position :: "real \<Rightarrow> position" where
  "example_position sl =
     \<lparr>pos_Date = 0, pos_Stock = ''ABC'', pos_Entry = 100, pos_SL = sl, pos_T1 = 106,
      pos_T2 = 112, pos_Quantity = 100, pos_Position = 10000, pos_Current = 100,
      pos_PnL_Rs = 0, pos_PnL_Pct = Fin 0, pos_Days_Held = 0, pos_Status = ''ACTIVE'',
      pos_Notes = [], pos_ATR = Some 4, pos_T1_Hit = Some False\<rparr>"

definition example_tick :: "real \<Rightarrow> tick_input" where
  "example_tick price =
     \<lparr>signals_file = None, fetch_close = [''ABC.NS'' \<mapsto> price], today = 1\<rparr>"

definition example_signal :: "string \<Rightarrow> real \<Rightarrow> real \<Rightarrow> signal" where
  "example_signal stock rr net =
     \<lparr>sig_Date = 1, sig_Stock = stock, sig_Entry = 100, sig_SL = 95, sig_T1 = 110,
      sig_T2 = 116, sig_RR = rr, sig_Quantity = 100, sig_Position = 10000,
      sig_Risk_Rs = 500, sig_Risk_Pct = 5, sig_Charges = 45.84, sig_Breakeven = 102.46,
      sig_Net_Expectancy_Pct = net, sig_ATR = 4, sig_Mode = ''standard''\<rparr>"

lemmas tracker_defs =
  tracker_main_def tracker_main_rows_def refreshed_def load_tracker_def add_new_trades_def
  update_current_prices_def calculate_pnl_def update_days_held_def check_triggers_def
  check_triggers_rows_def trigger_row_def new_position_def np_div_def py_round2_def
  example_position_def example_tick_def Let_def


section \<open>Ingestion of the day's signals\<close>

lemma add_new_trades_append:
  "add_new_trades tracker (Some signals) day = tracker @ map (new_position day) signals"
proof -
  have "foldl (\<lambda>t row. t @ [new_position day row]) t signals
          = t @ map (new_position day) signals" for t
    by (induction signals arbitrary: t) simp_all
  then show ?thesis by (simp add: add_new_trades_def)
qed

lemma add_new_trades_None: "add_new_trades tracker None day = tracker"
  by (simp add: add_new_trades_def)

lemma add_new_trades_nth:
  "i < length tracker \<Longrightarrow> add_new_trades tracker sf day ! i = tracker ! i"
  by (cases sf) (simp_all add: add_new_trades_append add_new_trades_None nth_append)

lemma add_new_trades_length:
  "length (add_new_trades tracker sf day) =
     length tracker + (case sf of None \<Rightarrow> 0 | Some s \<Rightarrow> length s)"
  by (cases sf) (simp_all add: add_new_trades_append add_new_trades_None)

lemma new_position_active: "pos_Status (new_position day row) = ''ACTIVE''"
  by (simp add: new_position_def)

lemma active_new: "active (map (new_position day) signals) = map (new_position day) signals"
  by (simp add: active_def new_position_active)

text \<open>
  C1, as the specification states it, fails. Ingesting the same one-row signal file
  twice on the same day leaves two identical ACTIVE rows for the symbol, where one
  ingestion leaves one.
\<close>

theorem C1_reingestion_duplicates:
  "active (add_new_trades
            (add_new_trades [] (Some [\<lparr>new_Stock = ''ABC'', new_Entry = 100, new_SL = 95,
               new_T1 = 110, new_T2 = Some 116, new_Quantity = 100, new_Position = 10000,
               new_ATR = Some 4\<rparr>]) 1)
            (Some [\<lparr>new_Stock = ''ABC'', new_Entry = 100, new_SL = 95,
               new_T1 = 110, new_T2 = Some 116, new_Quantity = 100, new_Position = 10000,
               new_ATR = Some 4\<rparr>]) 1)
   \<noteq> active (add_new_trades [] (Some [\<lparr>new_Stock = ''ABC'', new_Entry = 100, new_SL = 95,
               new_T1 = 110, new_T2 = Some 116, new_Quantity = 100, new_Position = 10000,
               new_ATR = Some 4\<rparr>]) 1)
   \<and> map pos_Stock (active (add_new_trades
            (add_new_trades [] (Some [\<lparr>new_Stock = ''ABC'', new_Entry = 100, new_SL = 95,
               new_T1 = 110, new_T2 = Some 116, new_Quantity = 100, new_Position = 10000,
               new_ATR = Some 4\<rparr>]) 1)
            (Some [\<lparr>new_Stock = ''ABC'', new_Entry = 100, new_SL = 95,
               new_T1 = 110, new_T2 = Some 116, new_Quantity = 100, new_Position = 10000,
               new_ATR = Some 4\<rparr>]) 1))
     = [''ABC'', ''ABC'']"
  by (simp add: add_new_trades_def active_def new_position_def)

text \<open>
  C1 as amended: ingestion is not keyed. A run whose signal file cannot be read leaves
  the ledger as it is; otherwise it appends one new ACTIVE row for every row of the
  file, after the rows already there, so the active rows grow by the whole batch.
  Ingesting the same file a second time gives the same ledger exactly when the file
  cannot be read or has no rows.
\<close>

theorem C1_ingestion_appends:
  "add_new_trades tracker None day = tracker
   \<and> add_new_trades tracker (Some signals) day = tracker @ map (new_position day) signals
   \<and> active (add_new_trades tracker (Some signals) day)
       = active tracker @ map (new_position day) signals
   \<and> (add_new_trades (add_new_trades tracker sf day) sf day = add_new_trades tracker sf day
        \<longleftrightarrow> sf = None \<or> sf = Some [])"
proof (intro conjI)
  show "add_new_trades tracker None day = tracker"
    by (rule add_new_trades_None)
  show "add_new_trades tracker (Some signals) day = tracker @ map (new_position day) signals"
    by (rule add_new_trades_append)
  have "active (tracker @ map (new_position day) signals)
          = active tracker @ active (map (new_position day) signals)"
    by (simp add: active_def)
  then show "active (add_new_trades tracker (Some signals) day)
               = active tracker @ map (new_position day) signals"
    by (simp add: add_new_trades_append active_new)
  show "add_new_trades (add_new_trades tracker sf day) sf day = add_new_trades tracker sf day
          \<longleftrightarrow> sf = None \<or> sf = Some []"
    by (cases sf) (simp_all add: add_new_trades_append add_new_trades_None)
qed

theorem C1_ingestion_appends_witness:
  "length (add_new_trades [example_position 95]
             (Some [\<lparr>new_Stock = ''XYZ'', new_Entry = 100, new_SL = 95, new_T1 = 110,
                new_T2 = None, new_Quantity = 100, new_Position = 10000,
                new_ATR = None\<rparr>]) 1) = 2
   \<and> add_new_trades (add_new_trades [example_position 95] (Some []) 1) (Some []) 1
       = add_new_trades [example_position 95] (Some []) 1"
  using C1_ingestion_appends [of "[example_position 95]" 1
      "[\<lparr>new_Stock = ''XYZ'', new_Entry = 100, new_SL = 95, new_T1 = 110,
         new_T2 = None, new_Quantity = 100, new_Position = 10000, new_ATR = None\<rparr>]"
      "Some []"]
  by simp



section \<open>One run of the tracker, row by row\<close>

lemma length_stages:
  "length (update_current_prices df f) = length df"
  "length (calculate_pnl df) = length df"
  "length (update_days_held df d) = length df"
  "length (check_triggers_rows df) = length df"
  by (simp_all add: update_current_prices_def calculate_pnl_def update_days_held_def
        check_triggers_rows_def)

lemma update_current_prices_keeps:
  assumes "i < length df"
  shows "pos_SL (update_current_prices df f ! i) = pos_SL (df ! i)"
    and "pos_T1_Hit (update_current_prices df f ! i) = pos_T1_Hit (df ! i)"
    and "pos_Status (update_current_prices df f ! i) = pos_Status (df ! i)"
    and "pos_Stock (update_current_prices df f ! i) = pos_Stock (df ! i)"
  using assms by (simp_all add: update_current_prices_def split: option.splits)

lemma calculate_pnl_keeps:
  assumes "i < length df"
  shows "pos_SL (calculate_pnl df ! i) = pos_SL (df ! i)"
    and "pos_T1_Hit (calculate_pnl df ! i) = pos_T1_Hit (df ! i)"
    and "pos_Status (calculate_pnl df ! i) = pos_Status (df ! i)"
    and "pos_Stock (calculate_pnl df ! i) = pos_Stock (df ! i)"
  using assms by (simp_all add: calculate_pnl_def)

lemma update_days_held_keeps:
  assumes "i < length df"
  shows "pos_SL (update_days_held df d ! i) = pos_SL (df ! i)"
    and "pos_T1_Hit (update_days_held df d ! i) = pos_T1_Hit (df ! i)"
    and "pos_Status (update_days_held df d ! i) = pos_Status (df ! i)"
    and "pos_Stock (update_days_held df d ! i) = pos_Stock (df ! i)"
  using assms by (simp_all add: update_days_held_def)

lemma refreshed_length:
  "length (refreshed (Some tracker) inp) =
     length tracker + (case signals_file inp of None \<Rightarrow> 0 | Some s \<Rightarrow> length s)"
  by (simp add: refreshed_def load_tracker_def Let_def length_stages add_new_trades_length)

text \<open>Before the rules run, a run changes neither stop, flag, status nor symbol of a row.\<close>

lemma refreshed_keeps:
  assumes "i < length tracker"
  shows "pos_SL (refreshed (Some tracker) inp ! i) = pos_SL (tracker ! i)"
    and "pos_T1_Hit (refreshed (Some tracker) inp ! i) = pos_T1_Hit (tracker ! i)"
    and "pos_Status (refreshed (Some tracker) inp ! i) = pos_Status (tracker ! i)"
    and "pos_Stock (refreshed (Some tracker) inp ! i) = pos_Stock (tracker ! i)"
proof -
  let ?a = "add_new_trades tracker (signals_file inp) (today inp)"
  have la: "i < length ?a" using assms by (simp add: add_new_trades_length)
  have a: "?a ! i = tracker ! i" using assms by (rule add_new_trades_nth)
  note stages = refreshed_def load_tracker_def Let_def length_stages
    update_days_held_keeps calculate_pnl_keeps update_current_prices_keeps
  show "pos_SL (refreshed (Some tracker) inp ! i) = pos_SL (tracker ! i)"
    using la a by (simp add: stages)
  show "pos_T1_Hit (refreshed (Some tracker) inp ! i) = pos_T1_Hit (tracker ! i)"
    using la a by (simp add: stages)
  show "pos_Status (refreshed (Some tracker) inp ! i) = pos_Status (tracker ! i)"
    using la a by (simp add: stages)
  show "pos_Stock (refreshed (Some tracker) inp ! i) = pos_Stock (tracker ! i)"
    using la a by (simp add: stages)
qed

text \<open>The rules on one ACTIVE row.\<close>

lemma trigger_row_SL: "pos_SL row \<le> pos_SL (snd (trigger_row row))"
  by (auto simp add: trigger_row_def Let_def split: prod.splits)

lemma trigger_row_flag: "flag row \<Longrightarrow> flag (snd (trigger_row row))"
  by (auto simp add: flag_def trigger_row_def Let_def split: prod.splits)

lemma trigger_row_T1_iff:
  "T1_HIT \<in> act_Rule ` set (fst (trigger_row row)) \<longleftrightarrow>
     \<not> flag row \<and> flag (snd (trigger_row row))"
  by (auto simp add: flag_def trigger_row_def Let_def split: prod.splits if_splits)

lemma trigger_row_stop:
  "pos_Current row \<le> pos_SL row \<Longrightarrow>
     trigger_row row =
       ([\<lparr>act_Stock = pos_Stock row, act_Rule = SL_HIT\<rparr>], row\<lparr>pos_Status := ''CLOSED''\<rparr>)"
  by (simp add: trigger_row_def)

lemma trigger_row_status:
  "pos_Status (snd (trigger_row row)) =
     (if pos_Current row \<le> pos_SL row then ''CLOSED'' else pos_Status row)"
  by (simp add: trigger_row_def Let_def split: prod.splits)

lemma trigger_row_Stock: "pos_Stock (snd (trigger_row row)) = pos_Stock row"
  by (simp add: trigger_row_def Let_def split: prod.splits)

text \<open>The rows of the ledger a run writes back.\<close>

lemma check_nth:
  assumes "i < length df"
  shows "check_triggers_rows df ! i =
           (if pos_Status (df ! i) = ''ACTIVE'' then trigger_row (df ! i) else ([], df ! i))"
  using assms by (simp add: check_triggers_rows_def)

lemma tracker_main_split:
  "tracker_main tf inp =
     (concat (map fst (tracker_main_rows tf inp)), map snd (tracker_main_rows tf inp))"
  by (simp add: tracker_main_def tracker_main_rows_def check_triggers_def)

lemma tracker_main_length:
  "length (snd (tracker_main (Some tracker) inp)) =
     length tracker + (case signals_file inp of None \<Rightarrow> 0 | Some s \<Rightarrow> length s)"
  by (simp add: tracker_main_def check_triggers_def length_stages refreshed_length)

lemma tracker_main_nth:
  assumes "i < length tracker"
  shows "snd (tracker_main (Some tracker) inp) ! i
           = snd (tracker_main_rows (Some tracker) inp ! i)"
proof -
  have "i < length (check_triggers_rows (refreshed (Some tracker) inp))"
    using assms by (simp add: length_stages refreshed_length)
  then show ?thesis
    by (simp add: tracker_main_def tracker_main_rows_def check_triggers_def)
qed

lemma tracker_main_rows_nth:
  assumes "i < length tracker"
  shows "tracker_main_rows (Some tracker) inp ! i =
           (if pos_Status (tracker ! i) = ''ACTIVE''
            then trigger_row (refreshed (Some tracker) inp ! i)
            else ([], refreshed (Some tracker) inp ! i))"
proof -
  have "i < length (refreshed (Some tracker) inp)"
    using assms by (simp add: refreshed_length)
  then show ?thesis
    using refreshed_keeps(3)[OF assms, of inp]
    by (simp add: tracker_main_rows_def check_nth)
qed

lemma tick_SL_mono:
  assumes "i < length tracker"
  shows "pos_SL (tracker ! i) \<le> pos_SL (snd (tracker_main (Some tracker) inp) ! i)"
  using trigger_row_SL[of "refreshed (Some tracker) inp ! i"]
    refreshed_keeps(1)[OF assms, of inp]
  by (simp add: tracker_main_nth[OF assms] tracker_main_rows_nth[OF assms])

lemma tick_Stock:
  assumes "i < length tracker"
  shows "pos_Stock (snd (tracker_main (Some tracker) inp) ! i) = pos_Stock (tracker ! i)"
  using refreshed_keeps(4)[OF assms, of inp]
  by (simp add: tracker_main_nth[OF assms] tracker_main_rows_nth[OF assms] trigger_row_Stock)

lemma tick_flag_keeps:
  assumes "i < length tracker" "flag (tracker ! i)"
  shows "flag (snd (tracker_main (Some tracker) inp) ! i)"
  using trigger_row_flag[of "refreshed (Some tracker) inp ! i"]
    refreshed_keeps(2)[OF assms(1), of inp] assms(2)
  by (simp add: flag_def tracker_main_nth[OF assms(1)] tracker_main_rows_nth[OF assms(1)])

lemma tick_T1_iff:
  assumes "i < length tracker"
  shows "T1_HIT \<in> act_Rule ` set (fst (tracker_main_rows (Some tracker) inp ! i)) \<longleftrightarrow>
           \<not> flag (tracker ! i) \<and> flag (snd (tracker_main (Some tracker) inp) ! i)"
  using trigger_row_T1_iff[of "refreshed (Some tracker) inp ! i"]
    refreshed_keeps(2)[OF assms, of inp]
  by (auto simp add: flag_def tracker_main_nth[OF assms] tracker_main_rows_nth[OF assms])

lemma tick_status:
  assumes "i < length tracker"
  shows "pos_Status (snd (tracker_main (Some tracker) inp) ! i) = pos_Status (tracker ! i)
       \<or> (pos_Status (tracker ! i) = ''ACTIVE''
          \<and> pos_Status (snd (tracker_main (Some tracker) inp) ! i) = ''CLOSED'')"
  using refreshed_keeps(3)[OF assms, of inp]
  by (simp add: tracker_main_nth[OF assms] tracker_main_rows_nth[OF assms] trigger_row_status)

lemma tick_not_active:
  assumes "i < length tracker" "pos_Status (tracker ! i) \<noteq> ''ACTIVE''"
  shows "fst (tracker_main_rows (Some tracker) inp ! i) = []"
    and "pos_Status (snd (tracker_main (Some tracker) inp) ! i) = pos_Status (tracker ! i)"
  using refreshed_keeps(3)[OF assms(1), of inp] assms(2)
  by (simp_all add: tracker_main_nth[OF assms(1)] tracker_main_rows_nth[OF assms(1)])

lemma tick_stop_hit:
  assumes "i < length (refreshed tf inp)"
    and "pos_Status (refreshed tf inp ! i) = ''ACTIVE''"
    and "pos_Current (refreshed tf inp ! i) \<le> pos_SL (refreshed tf inp ! i)"
  shows "tracker_main_rows tf inp ! i =
           ([\<lparr>act_Stock = pos_Stock (refreshed tf inp ! i), act_Rule = SL_HIT\<rparr>],
            (refreshed tf inp ! i)\<lparr>pos_Status := ''CLOSED''\<rparr>)"
  using assms by (simp add: tracker_main_rows_def check_nth trigger_row_stop)


section \<open>Successive runs\<close>

lemma run_ticks_length: "length tracker \<le> length (run_ticks tracker inps)"
proof (induction inps arbitrary: tracker)
  case Nil
  then show ?case by simp
next
  case (Cons inp inps)
  have "length tracker \<le> length (snd (tracker_main (Some tracker) inp))"
    by (simp add: tracker_main_length)
  also have "\<dots> \<le> length (run_ticks (snd (tracker_main (Some tracker) inp)) inps)"
    by (rule Cons.IH)
  finally show ?case by simp
qed

lemma run_SL_mono:
  "i < length tracker \<Longrightarrow> pos_SL (tracker ! i) \<le> pos_SL (run_ticks tracker inps ! i)"
proof (induction inps arbitrary: tracker)
  case Nil
  then show ?case by simp
next
  case (Cons inp inps)
  let ?t = "snd (tracker_main (Some tracker) inp)"
  have l: "i < length ?t" using Cons.prems by (simp add: tracker_main_length)
  have "pos_SL (tracker ! i) \<le> pos_SL (?t ! i)" by (rule tick_SL_mono[OF Cons.prems])
  also have "\<dots> \<le> pos_SL (run_ticks ?t inps ! i)" by (rule Cons.IH[OF l])
  finally show ?case by simp
qed

lemma run_Stock:
  "i < length tracker \<Longrightarrow> pos_Stock (run_ticks tracker inps ! i) = pos_Stock (tracker ! i)"
proof (induction inps arbitrary: tracker)
  case Nil
  then show ?case by simp
next
  case (Cons inp inps)
  let ?t = "snd (tracker_main (Some tracker) inp)"
  have l: "i < length ?t" using Cons.prems by (simp add: tracker_main_length)
  show ?case using Cons.IH[OF l] tick_Stock[OF Cons.prems, of inp] by simp
qed

lemma fires_T1_after_flag:
  "i < length tracker \<Longrightarrow> flag (tracker ! i) \<Longrightarrow>
     fires T1_HIT i tracker inps = 0 \<and> flag (run_ticks tracker inps ! i)"
proof (induction inps arbitrary: tracker)
  case Nil
  then show ?case by simp
next
  case (Cons inp inps)
  let ?t = "snd (tracker_main (Some tracker) inp)"
  have l: "i < length ?t" using Cons.prems(1) by (simp add: tracker_main_length)
  have f: "flag (?t ! i)" by (rule tick_flag_keeps[OF Cons.prems])
  have n: "T1_HIT \<notin> act_Rule ` set (fst (tracker_main_rows (Some tracker) inp ! i))"
    using tick_T1_iff[OF Cons.prems(1), of inp] Cons.prems(2) by simp
  show ?case using Cons.IH[OF l f] n by simp
qed

lemma fires_T1_once: "i < length tracker \<Longrightarrow> fires T1_HIT i tracker inps \<le> 1"
proof (induction inps arbitrary: tracker)
  case Nil
  then show ?case by simp
next
  case (Cons inp inps)
  let ?t = "snd (tracker_main (Some tracker) inp)"
  have l: "i < length ?t" using Cons.prems by (simp add: tracker_main_length)
  show ?case
  proof (cases "T1_HIT \<in> act_Rule ` set (fst (tracker_main_rows (Some tracker) inp ! i))")
    case True
    then have "flag (?t ! i)" using tick_T1_iff[OF Cons.prems, of inp] by simp
    then have "fires T1_HIT i ?t inps = 0" using fires_T1_after_flag[OF l] by simp
    then show ?thesis using True by simp
  next
    case False
    then show ?thesis using Cons.IH[OF l] by simp
  qed
qed

lemma run_not_active:
  "i < length tracker \<Longrightarrow> pos_Status (tracker ! i) \<noteq> ''ACTIVE'' \<Longrightarrow>
     fires r i tracker inps = 0
     \<and> pos_Status (run_ticks tracker inps ! i) = pos_Status (tracker ! i)"
proof (induction inps arbitrary: tracker)
  case Nil
  then show ?case by simp
next
  case (Cons inp inps)
  let ?t = "snd (tracker_main (Some tracker) inp)"
  have l: "i < length ?t" using Cons.prems(1) by (simp add: tracker_main_length)
  have s: "pos_Status (?t ! i) = pos_Status (tracker ! i)"
    by (rule tick_not_active(2)[OF Cons.prems])
  then have na: "pos_Status (?t ! i) \<noteq> ''ACTIVE''" using Cons.prems(2) by simp
  show ?case using Cons.IH[OF l na] s tick_not_active(1)[OF Cons.prems, of inp] by simp
qed



section \<open>Claims about the tracker\<close>

text \<open>
  C2, as the specification states it, fails. A position with entry 100 and stop 100 whose
  price is refreshed to 99 is closed by the run, and the ledger the run writes back to
  \<open>trade_tracker.csv\<close> still holds its row, now with status CLOSED: the row has not moved
  anywhere. The tracker writes no other file.
\<close>

theorem C2_closed_row_stays_in_ledger:
  "tracker_main
     (Some [\<lparr>pos_Date = 0, pos_Stock = ''ABC'', pos_Entry = 100, pos_SL = 100, pos_T1 = 106,
        pos_T2 = 112, pos_Quantity = 100, pos_Position = 10000, pos_Current = 100,
        pos_PnL_Rs = 0, pos_PnL_Pct = Fin 0, pos_Days_Held = 0, pos_Status = ''ACTIVE'',
        pos_Notes = [], pos_ATR = Some 4, pos_T1_Hit = Some False\<rparr>])
     \<lparr>signals_file = None, fetch_close = [''ABC.NS'' \<mapsto> 99], today = 1\<rparr>
   = ([\<lparr>act_Stock = ''ABC'', act_Rule = SL_HIT\<rparr>],
      [\<lparr>pos_Date = 0, pos_Stock = ''ABC'', pos_Entry = 100, pos_SL = 100, pos_T1 = 106,
        pos_T2 = 112, pos_Quantity = 100, pos_Position = 10000, pos_Current = 99,
        pos_PnL_Rs = - 100, pos_PnL_Pct = Fin (- 1), pos_Days_Held = 1,
        pos_Status = ''CLOSED'', pos_Notes = [], pos_ATR = Some 4,
        pos_T1_Hit = Some False\<rparr>])"
  by (simp add: tracker_main_def refreshed_def load_tracker_def add_new_trades_def
      update_current_prices_def calculate_pnl_def update_days_held_def check_triggers_def
      check_triggers_rows_def trigger_row_def np_div_def py_round2_def Let_def)

text \<open>
  C2 as amended: the tracker keeps one ledger. Through any number of runs a row stays in
  the ledger at its index, with its symbol, and a row whose status is CLOSED keeps that
  status, so it is never among the rows selected as ACTIVE.
\<close>

theorem C2_closed_stays_closed:
  assumes "i < length tracker"
  shows "i < length (run_ticks tracker inps)
       \<and> pos_Stock (run_ticks tracker inps ! i) = pos_Stock (tracker ! i)
       \<and> (pos_Status (tracker ! i) = ''CLOSED'' \<longrightarrow>
            pos_Status (run_ticks tracker inps ! i) = ''CLOSED''
            \<and> run_ticks tracker inps ! i \<notin> set (active (run_ticks tracker inps)))"
proof (intro conjI impI)
  show "i < length (run_ticks tracker inps)"
    using assms run_ticks_length[of tracker inps] by simp
  show "pos_Stock (run_ticks tracker inps ! i) = pos_Stock (tracker ! i)"
    by (rule run_Stock[OF assms])
next
  assume c: "pos_Status (tracker ! i) = ''CLOSED''"
  then have "pos_Status (tracker ! i) \<noteq> ''ACTIVE''" by simp
  from run_not_active[OF assms this, of T1_HIT inps] c
  show s: "pos_Status (run_ticks tracker inps ! i) = ''CLOSED''" by simp
  then show "run_ticks tracker inps ! i \<notin> set (active (run_ticks tracker inps))"
    by (simp add: active_def)
qed

theorem C2_closed_stays_closed_witness:
  "(0::nat) < length [(example_position 100)\<lparr>pos_Status := ''CLOSED''\<rparr>]
   \<and> pos_Status (run_ticks [(example_position 100)\<lparr>pos_Status := ''CLOSED''\<rparr>]
         [example_tick 120, example_tick 90] ! 0) = ''CLOSED''"
proof -
  have l: "(0::nat) < length [(example_position 100)\<lparr>pos_Status := ''CLOSED''\<rparr>]"
    by simp
  have c: "pos_Status ([(example_position 100)\<lparr>pos_Status := ''CLOSED''\<rparr>] ! 0) = ''CLOSED''"
    by simp
  show ?thesis
    using C2_closed_stays_closed[OF l, of "[example_tick 120, example_tick 90]"] l c
    by blast
qed

text \<open>
  C6: no run lowers the stop-loss of a position. The rules write the stop in two places,
  the breakeven lock, which fires only below the entry price and sets the entry price,
  and the first-target rule, which takes the maximum of the stop and the trailing stop;
  nothing else in a run writes it. So the stop of the row at any index is non-decreasing
  over one run and over any sequence of runs, in particular after either rule has fired.
\<close>

theorem C6_stop_never_lowered:
  assumes "i < length tracker"
  shows "pos_SL (tracker ! i) \<le> pos_SL (snd (tracker_main (Some tracker) inp) ! i)
       \<and> pos_SL (tracker ! i) \<le> pos_SL (run_ticks tracker inps ! i)
       \<and> pos_SL (run_ticks tracker inps ! i) \<le> pos_SL (run_ticks tracker (inps @ [inp]) ! i)"
proof (intro conjI)
  show "pos_SL (tracker ! i) \<le> pos_SL (snd (tracker_main (Some tracker) inp) ! i)"
    by (rule tick_SL_mono[OF assms])
  show "pos_SL (tracker ! i) \<le> pos_SL (run_ticks tracker inps ! i)"
    by (rule run_SL_mono[OF assms])
  have app: "run_ticks t (xs @ ys) = run_ticks (run_ticks t xs) ys" for t xs ys
    by (induction xs arbitrary: t) simp_all
  have l: "i < length (run_ticks tracker inps)"
    using assms run_ticks_length[of tracker inps] by simp
  show "pos_SL (run_ticks tracker inps ! i) \<le> pos_SL (run_ticks tracker (inps @ [inp]) ! i)"
    using tick_SL_mono[OF l, of inp] by (simp add: app)
qed

theorem C6_stop_never_lowered_witness:
  "(0::nat) < length [example_position 95]
   \<and> pos_SL (snd (tracker_main (Some [example_position 95]) (example_tick 109)) ! 0) = 103
   \<and> pos_SL ([example_position 95] ! 0)
       \<le> pos_SL (run_ticks [example_position 95] [example_tick 109, example_tick 104] ! 0)"
proof -
  have l: "(0::nat) < length [example_position 95]" by simp
  have v: "pos_SL (snd (tracker_main (Some [example_position 95]) (example_tick 109)) ! 0) = 103"
    by (simp add: tracker_defs)
  show ?thesis
    using C6_stop_never_lowered[OF l, of "example_tick 109"
        "[example_tick 109, example_tick 104]"] l v
    by blast
qed

text \<open>
  C7: for the row at any index, over any sequence of runs, T1_HIT is reported on at most
  one run. On a run it is reported for the row exactly when the flag of the row goes from
  false to true, and once the flag is true it stays true and T1_HIT is not reported again.
\<close>

theorem C7_first_target_fires_once:
  assumes "i < length tracker"
  shows "fires T1_HIT i tracker inps \<le> 1
       \<and> (T1_HIT \<in> act_Rule ` set (fst (tracker_main_rows (Some tracker) inp ! i)) \<longleftrightarrow>
            \<not> flag (tracker ! i) \<and> flag (snd (tracker_main (Some tracker) inp) ! i))
       \<and> (flag (tracker ! i) \<longrightarrow>
            flag (snd (tracker_main (Some tracker) inp) ! i)
            \<and> flag (run_ticks tracker inps ! i)
            \<and> fires T1_HIT i tracker inps = 0)"
proof (intro conjI impI)
  show "fires T1_HIT i tracker inps \<le> 1"
    by (rule fires_T1_once[OF assms])
  show "T1_HIT \<in> act_Rule ` set (fst (tracker_main_rows (Some tracker) inp ! i)) \<longleftrightarrow>
          \<not> flag (tracker ! i) \<and> flag (snd (tracker_main (Some tracker) inp) ! i)"
    by (rule tick_T1_iff[OF assms])
next
  assume f: "flag (tracker ! i)"
  show "flag (snd (tracker_main (Some tracker) inp) ! i)"
    by (rule tick_flag_keeps[OF assms f])
  show "flag (run_ticks tracker inps ! i)"
    using fires_T1_after_flag[OF assms f] by simp
  show "fires T1_HIT i tracker inps = 0"
    using fires_T1_after_flag[OF assms f] by simp
qed

theorem C7_first_target_fires_once_witness:
  "(0::nat) < length [example_position 95]
   \<and> fires T1_HIT 0 [example_position 95] [example_tick 109, example_tick 110] = 1
   \<and> fires T1_HIT 0 [example_position 95] [example_tick 109, example_tick 110] \<le> 1"
proof -
  have l: "(0::nat) < length [example_position 95]" by simp
  have v: "fires T1_HIT 0 [example_position 95] [example_tick 109, example_tick 110] = 1"
    by (simp add: tracker_defs)
  show ?thesis
    using C7_first_target_fires_once[OF l, of "[example_tick 109, example_tick 110]"] l v
    by blast
qed

text \<open>
  C8: on a run, for a row that is ACTIVE and whose refreshed price is at or below its
  stop, the rules report exactly one action, SL_HIT, and change nothing of the row but
  the status, which becomes CLOSED. The actions and the ledger the run returns are the
  per-row outcomes put together. Over a run the status of a row stays as it is or goes
  from ACTIVE to CLOSED; a row that is not ACTIVE, so a CLOSED one, has no rule reported
  for it on any later run, and keeps its status.
\<close>

theorem C8_stop_hit_closes:
  "(i < length (refreshed tf inp)
      \<and> pos_Status (refreshed tf inp ! i) = ''ACTIVE''
      \<and> pos_Current (refreshed tf inp ! i) \<le> pos_SL (refreshed tf inp ! i)
    \<longrightarrow> tracker_main_rows tf inp ! i =
          ([\<lparr>act_Stock = pos_Stock (refreshed tf inp ! i), act_Rule = SL_HIT\<rparr>],
           (refreshed tf inp ! i)\<lparr>pos_Status := ''CLOSED''\<rparr>))
   \<and> tracker_main tf inp =
       (concat (map fst (tracker_main_rows tf inp)), map snd (tracker_main_rows tf inp))
   \<and> (j < length tracker \<longrightarrow>
        pos_Status (snd (tracker_main (Some tracker) inp) ! j) = pos_Status (tracker ! j)
        \<or> (pos_Status (tracker ! j) = ''ACTIVE''
           \<and> pos_Status (snd (tracker_main (Some tracker) inp) ! j) = ''CLOSED''))
   \<and> (j < length tracker \<and> pos_Status (tracker ! j) \<noteq> ''ACTIVE'' \<longrightarrow>
        fires r j tracker inps = 0
        \<and> pos_Status (run_ticks tracker inps ! j) = pos_Status (tracker ! j))"
proof (intro conjI impI)
  assume "i < length (refreshed tf inp)
      \<and> pos_Status (refreshed tf inp ! i) = ''ACTIVE''
      \<and> pos_Current (refreshed tf inp ! i) \<le> pos_SL (refreshed tf inp ! i)"
  then show "tracker_main_rows tf inp ! i =
          ([\<lparr>act_Stock = pos_Stock (refreshed tf inp ! i), act_Rule = SL_HIT\<rparr>],
           (refreshed tf inp ! i)\<lparr>pos_Status := ''CLOSED''\<rparr>)"
    using tick_stop_hit by blast
next
  show "tracker_main tf inp =
       (concat (map fst (tracker_main_rows tf inp)), map snd (tracker_main_rows tf inp))"
    by (rule tracker_main_split)
next
  assume "j < length tracker"
  then show "pos_Status (snd (tracker_main (Some tracker) inp) ! j) = pos_Status (tracker ! j)
        \<or> (pos_Status (tracker ! j) = ''ACTIVE''
           \<and> pos_Status (snd (tracker_main (Some tracker) inp) ! j) = ''CLOSED'')"
    by (rule tick_status)
next
  assume a: "j < length tracker \<and> pos_Status (tracker ! j) \<noteq> ''ACTIVE''"
  then show "fires r j tracker inps = 0"
    using run_not_active[of j tracker r inps] by simp
  from a show "pos_Status (run_ticks tracker inps ! j) = pos_Status (tracker ! j)"
    using run_not_active[of j tracker r inps] by simp
qed

theorem C8_stop_hit_closes_witness:
  "(0::nat) < length (refreshed (Some [example_position 100]) (example_tick 99))
   \<and> pos_Status (refreshed (Some [example_position 100]) (example_tick 99) ! 0) = ''ACTIVE''
   \<and> pos_Current (refreshed (Some [example_position 100]) (example_tick 99) ! 0)
       \<le> pos_SL (refreshed (Some [example_position 100]) (example_tick 99) ! 0)
   \<and> map act_Rule (fst (tracker_main_rows (Some [example_position 100]) (example_tick 99) ! 0))
       = [SL_HIT]
   \<and> fires MONTH_END 0 (snd (tracker_main (Some [example_position 100]) (example_tick 99)))
       [example_tick 120] = 0"
proof -
  let ?t = "snd (tracker_main (Some [example_position 100]) (example_tick 99))"
  have h: "(0::nat) < length (refreshed (Some [example_position 100]) (example_tick 99))
      \<and> pos_Status (refreshed (Some [example_position 100]) (example_tick 99) ! 0) = ''ACTIVE''
      \<and> pos_Current (refreshed (Some [example_position 100]) (example_tick 99) ! 0)
          \<le> pos_SL (refreshed (Some [example_position 100]) (example_tick 99) ! 0)"
    by (simp add: tracker_defs)
  have c: "(0::nat) < length ?t \<and> pos_Status (?t ! 0) \<noteq> ''ACTIVE''"
    by (simp add: tracker_defs)
  have "tracker_main_rows (Some [example_position 100]) (example_tick 99) ! 0 =
          ([\<lparr>act_Stock = pos_Stock (refreshed (Some [example_position 100]) (example_tick 99) ! 0),
             act_Rule = SL_HIT\<rparr>],
           (refreshed (Some [example_position 100]) (example_tick 99) ! 0)
             \<lparr>pos_Status := ''CLOSED''\<rparr>)"
    using C8_stop_hit_closes[of 0 "Some [example_position 100]" "example_tick 99"] h by blast
  then have a: "map act_Rule
      (fst (tracker_main_rows (Some [example_position 100]) (example_tick 99) ! 0)) = [SL_HIT]"
    by simp
  have "fires MONTH_END 0 ?t [example_tick 120] = 0"
    using C8_stop_hit_closes[of _ _ _ 0 ?t MONTH_END "[example_tick 120]"] c by blast
  then show ?thesis using h a by blast
qed



section \<open>Claims about Layer 3 of the screening\<close>

lemma add_levels_fields:
  "Entry (add_levels r) = Close r"
  "SL (add_levels r) = Support r * (995 / 1000)"
  "Risk_Per_Share (add_levels r) = Close r - Support r * (995 / 1000)"
  "Target (add_levels r) = Close r + 2 * (Close r - Support r * (995 / 1000))"
  by (simp_all add: add_levels_def Let_def extended.defs levelled.defs)

lemma RR_add_levels:
  "RR (add_levels r) =
     np_div (Close r + 2 * (Close r - Support r * (995 / 1000)) - Close r)
            (Close r - Support r * (995 / 1000))"
  by (simp add: add_levels_def Let_def extended.defs levelled.defs)


lemma np_div_zero: "a = 0 \<Longrightarrow> np_div (e + 2 * a - e) a = NaN"
  by (simp add: np_div_def)


lemma RR_nan: "Entry (add_levels r) - SL (add_levels r) = 0 \<Longrightarrow> RR (add_levels r) = NaN"
  unfolding RR_add_levels add_levels_fields by (rule np_div_zero)

lemma add_risk_pct_fields:
  "Entry (add_risk_pct y) = Entry y" "SL (add_risk_pct y) = SL y" "RR (add_risk_pct y) = RR y"
  by (simp_all add: add_risk_pct_def levelled.defs shortlisted.defs)

text \<open>Every row that leaves Layer 3 passed the minimum-RR comparison.\<close>

lemma layer3_filter_member:
  assumes "x \<in> set (layer3_filter df F)"
  shows "\<exists>r. x = add_risk_pct (add_levels r) \<and> np_ge (RR (add_levels r)) (min_rr F)"
  using assms by (auto simp add: layer3_filter_def Let_def split: if_splits)

lemma sizing_nonpositive:
  "entry - sl \<le> 0 \<Longrightarrow> calculate_position_size cfg entry sl cap = Inr (0, 0)"
  by (simp add: calculate_position_size_def Let_def)

lemma row_nonpositive:
  "row_Entry row - row_SL row \<le> 0 \<Longrightarrow> generate_signals_row cfg day row = Inr None"
  by (simp add: generate_signals_row_def sizing_nonpositive)

text \<open>
  C3, as the specification states it, fails. Layer 3 has no guard on entry minus stop. A
  row with close 100, 20-day high 90, 20-day average 95 and support 102 has stop 101.49
  above its entry; its reward:risk is the quotient of -2.98 and -1.49, which is 2, and
  its risk percent is negative, so under the relaxed profile it leaves Layer 3.
\<close>

theorem C3_negative_risk_row_survives:
  "layer3_filter
     [\<lparr>Symbol = ''ABC'', Close = 100, High_20D = 90, MA20 = 95, Support = 102\<rparr>]
     \<lparr>mode = ''relaxed'', min_volume = 200000, min_price = 100, max_price = 5000,
      rsi_min = 45, rsi_max = 75, adx_min = 15, volume_surge = 11/10,
      max_extension = 15, min_rr = 18/10\<rparr>
   = [\<lparr>Symbol = ''ABC'', Close = 100, High_20D = 90, MA20 = 95, Support = 102,
       Pct_Above_MA20 = Fin (100 / 19), Entry = 100, SL = 10149 / 100,
       Risk_Per_Share = - (149 / 100), Target = 4851 / 50, RR = Fin 2,
       Risk_Pct = Fin (- (149 / 100))\<rparr>]
   \<and> (100::real) - 10149 / 100 \<le> 0"
  by (simp add: layer3_filter_def add_extension_def add_levels_def add_risk_pct_def
      np_div_def Let_def snapshot.defs extended.defs levelled.defs shortlisted.defs)

text \<open>
  C3 as amended: Layer 3 computes the reward:risk of every row that passed the extension
  filter, without a guard. A row whose entry minus stop is zero gets NaN and fails the
  minimum-RR comparison, so no such row leaves Layer 3. The guard on a non-positive entry
  minus stop is in the position sizing: it returns quantity zero, and the row gives no
  signal.
\<close>

theorem C3_zero_risk_dropped_nonpositive_unsized:
  "(\<forall>x \<in> set (layer3_filter df F). Entry x - SL x \<noteq> 0)
   \<and> (entry - sl \<le> 0 \<longrightarrow> calculate_position_size cfg entry sl cap = Inr (0, 0))
   \<and> (row_Entry row - row_SL row \<le> 0 \<longrightarrow> generate_signals_row cfg day row = Inr None)"
proof (intro conjI ballI impI)
  fix x assume "x \<in> set (layer3_filter df F)"
  then obtain r where x: "x = add_risk_pct (add_levels r)"
    and ge: "np_ge (RR (add_levels r)) (min_rr F)"
    using layer3_filter_member by blast
  have "Entry (add_levels r) - SL (add_levels r) \<noteq> 0"
  proof
    assume "Entry (add_levels r) - SL (add_levels r) = 0"
    then have "RR (add_levels r) = NaN" by (rule RR_nan)
    then show False using ge by simp
  qed
  then show "Entry x - SL x \<noteq> 0" by (simp add: x add_risk_pct_fields)
next
  assume "entry - sl \<le> 0"
  then show "calculate_position_size cfg entry sl cap = Inr (0, 0)"
    by (rule sizing_nonpositive)
next
  assume "row_Entry row - row_SL row \<le> 0"
  then show "generate_signals_row cfg day row = Inr None"
    by (rule row_nonpositive)
qed

theorem C3_zero_risk_dropped_nonpositive_unsized_witness:
  "layer3_filter
     [\<lparr>Symbol = ''ABC'', Close = 199, High_20D = 190, MA20 = 195, Support = 200\<rparr>]
     (load_filters example_base_filters ''relaxed'') = []
   \<and> (100::real) - 101 \<le> 0
   \<and> calculate_position_size example_config 100 101 100000 = Inr (0, 0)
   \<and> row_Entry (example_row 101 98) - row_SL (example_row 101 98) \<le> 0
   \<and> generate_signals_row example_config 1 (example_row 101 98) = Inr None"
proof -
  have z: "layer3_filter
     [\<lparr>Symbol = ''ABC'', Close = 199, High_20D = 190, MA20 = 195, Support = 200\<rparr>]
     (load_filters example_base_filters ''relaxed'') = []"
    by (simp add: layer3_filter_def add_extension_def add_levels_def add_risk_pct_def
        load_filters_def np_div_def Let_def snapshot.defs extended.defs levelled.defs
        shortlisted.defs)
  have h1: "(100::real) - 101 \<le> 0" by simp
  have h2: "row_Entry (example_row 101 98) - row_SL (example_row 101 98) \<le> 0"
    by (simp add: example_row_def)
  show ?thesis
    using C3_zero_risk_dropped_nonpositive_unsized[of _ _ 100 101 example_config 100000
        "example_row 101 98" 1] z h1 h2
    by blast
qed





section \<open>Claims about sizing, costs and ranking\<close>

lemma py_int_nonneg: "0 \<le> x \<Longrightarrow> py_int x = \<lfloor>x\<rfloor>"
  by (simp add: py_int_def)

lemma floor_mult_le:
  fixes a b :: real
  assumes "0 < b"
  shows "of_int \<lfloor>a / b\<rfloor> * b \<le> a"
proof -
  have "of_int \<lfloor>a / b\<rfloor> \<le> a / b" by simp
  then have "of_int \<lfloor>a / b\<rfloor> * b \<le> a / b * b"
    using assms by (simp only: mult_le_cancel_right_pos)
  then show ?thesis using assms by simp
qed

lemma sizing:
  assumes e: "0 < entry" and r: "0 < entry - sl"
    and mr: "0 \<le> cap * RISK_PER_TRADE cfg" and mp: "0 \<le> cap * MAX_POSITION_PCT cfg"
  defines "raw \<equiv> \<lfloor>cap * RISK_PER_TRADE cfg / (entry - sl)\<rfloor>"
  defines "capped \<equiv> \<lfloor>cap * MAX_POSITION_PCT cfg / entry\<rfloor>"
  defines "qty \<equiv> (if of_int raw * entry > cap * MAX_POSITION_PCT cfg then capped else raw)"
  shows "calculate_position_size cfg entry sl cap = Inr (qty, of_int qty * entry)"
    and "of_int qty * entry \<le> cap * MAX_POSITION_PCT cfg"
    and "of_int qty * (entry - sl) \<le> cap * RISK_PER_TRADE cfg"
proof -
  have q1: "0 \<le> cap * RISK_PER_TRADE cfg / (entry - sl)" using r mr by simp
  have q2: "0 \<le> cap * MAX_POSITION_PCT cfg / entry" using e mp by simp
  show "calculate_position_size cfg entry sl cap = Inr (qty, of_int qty * entry)"
    using r e q1 q2
    by (simp add: calculate_position_size_def Let_def py_div_def py_int_nonneg
          qty_def raw_def capped_def)
  have c: "of_int capped * entry \<le> cap * MAX_POSITION_PCT cfg"
    unfolding capped_def by (rule floor_mult_le[OF e])
  show "of_int qty * entry \<le> cap * MAX_POSITION_PCT cfg"
    using c by (simp add: qty_def)
  have rr: "of_int raw * (entry - sl) \<le> cap * RISK_PER_TRADE cfg"
    unfolding raw_def by (rule floor_mult_le[OF r])
  have "capped \<le> raw" if "of_int raw * entry > cap * MAX_POSITION_PCT cfg"
  proof -
    have "of_int capped * entry < of_int raw * entry" using c that by simp
    then have "(of_int capped :: real) < of_int raw" using e by simp
    then show ?thesis by simp
  qed
  then have "qty \<le> raw" by (simp add: qty_def)
  then have "(of_int qty :: real) \<le> of_int raw" by simp
  then have "of_int qty * (entry - sl) \<le> of_int raw * (entry - sl)"
    using r by (simp only: mult_le_cancel_right_pos)
  then show "of_int qty * (entry - sl) \<le> cap * RISK_PER_TRADE cfg" using rr by simp
qed

text \<open>
  C4: for a positive entry price and a stop below it, with a risk budget and a position
  budget that are not negative, position sizing returns a quantity and the notional
  quantity times entry; the notional is within the position budget and quantity times
  risk per share is within the risk budget. The quantity is the floor of risk budget over
  risk per share, unless its notional exceeds the position budget: then it is the floor
  of position budget over entry. For capital 100000, 1 percent risk, 10 percent position,
  entry 100 and stop 95 the result is quantity 100 and notional 10000.
\<close>

theorem C4_position_sizing:
  assumes "0 < entry" and "0 < entry - sl"
    and "0 \<le> cap * RISK_PER_TRADE cfg" and "0 \<le> cap * MAX_POSITION_PCT cfg"
  shows "(\<exists>qty notional.
            calculate_position_size cfg entry sl cap = Inr (qty, notional)
            \<and> notional = of_int qty * entry
            \<and> notional \<le> cap * MAX_POSITION_PCT cfg
            \<and> of_int qty * (entry - sl) \<le> cap * RISK_PER_TRADE cfg
            \<and> qty = (if of_int \<lfloor>cap * RISK_PER_TRADE cfg / (entry - sl)\<rfloor> * entry
                          > cap * MAX_POSITION_PCT cfg
                      then \<lfloor>cap * MAX_POSITION_PCT cfg / entry\<rfloor>
                      else \<lfloor>cap * RISK_PER_TRADE cfg / (entry - sl)\<rfloor>))
       \<and> calculate_position_size
            \<lparr>capital = 100000, risk_per_trade_pct = 1, max_position_pct = 10,
             max_concurrent_trades = n\<rparr> 100 95 100000 = Inr (100, 10000)"
proof (intro conjI)
  show "\<exists>qty notional.
            calculate_position_size cfg entry sl cap = Inr (qty, notional)
            \<and> notional = of_int qty * entry
            \<and> notional \<le> cap * MAX_POSITION_PCT cfg
            \<and> of_int qty * (entry - sl) \<le> cap * RISK_PER_TRADE cfg
            \<and> qty = (if of_int \<lfloor>cap * RISK_PER_TRADE cfg / (entry - sl)\<rfloor> * entry
                          > cap * MAX_POSITION_PCT cfg
                      then \<lfloor>cap * MAX_POSITION_PCT cfg / entry\<rfloor>
                      else \<lfloor>cap * RISK_PER_TRADE cfg / (entry - sl)\<rfloor>)"
    using sizing[OF assms] by blast
  show "calculate_position_size
            \<lparr>capital = 100000, risk_per_trade_pct = 1, max_position_pct = 10,
             max_concurrent_trades = n\<rparr> 100 95 100000 = Inr (100, 10000)"
    by (simp add: calculate_position_size_def RISK_PER_TRADE_def MAX_POSITION_PCT_def
          py_int_def py_div_def Let_def)
qed

theorem C4_position_sizing_witness:
  "(0::real) < 50 \<and> (0::real) < 50 - 48
   \<and> 0 \<le> 100000 * RISK_PER_TRADE example_config
   \<and> 0 \<le> 100000 * MAX_POSITION_PCT example_config
   \<and> (\<exists>qty notional.
         calculate_position_size example_config 50 48 100000 = Inr (qty, notional)
         \<and> notional \<le> 100000 * MAX_POSITION_PCT example_config
         \<and> of_int qty * (50 - 48) \<le> 100000 * RISK_PER_TRADE example_config)
   \<and> calculate_position_size example_config 50 48 100000 = Inr (200, 10000)"
proof -
  have h1: "(0::real) < 50" and h2: "(0::real) < 50 - 48" by simp_all
  have h3: "0 \<le> 100000 * RISK_PER_TRADE example_config"
    and h4: "0 \<le> 100000 * MAX_POSITION_PCT example_config"
    by (simp_all add: RISK_PER_TRADE_def MAX_POSITION_PCT_def example_config_def)
  have v: "calculate_position_size example_config 50 48 100000 = Inr (200, 10000)"
    by (simp add: calculate_position_size_def RISK_PER_TRADE_def MAX_POSITION_PCT_def
          example_config_def py_int_def py_div_def Let_def)
  have "\<exists>qty notional.
         calculate_position_size example_config 50 48 100000 = Inr (qty, notional)
         \<and> notional \<le> 100000 * MAX_POSITION_PCT example_config
         \<and> of_int qty * (50 - 48) \<le> 100000 * RISK_PER_TRADE example_config"
    using C4_position_sizing[OF h1 h2 h3 h4] by blast
  then show ?thesis using h1 h2 h3 h4 v by blast
qed

lemma min_target_of_eq:
  "min_target_of entry pv = Inr m \<Longrightarrow>
     pv \<noteq> 0 \<and> m = entry * (1 + calculate_charges pv / pv + 0.02)"
  by (auto simp add: min_target_of_def py_div_def Let_def split: if_splits)

lemma row_signal:
  assumes "generate_signals_row cfg day row = Inr (Some s)"
  shows "sig_Position s \<noteq> 0"
    and "sig_Charges s = calculate_charges (sig_Position s)"
    and "sig_Entry s = row_Entry row" and "sig_T1 s = row_Target row"
    and "calculate_position_size cfg (row_Entry row) (row_SL row) (capital cfg)
           = Inr (sig_Quantity s, sig_Position s)"
    and "sig_Entry s * (1 + sig_Charges s / sig_Position s + 0.02) \<le> sig_T1 s"
  using assms
  by (auto simp add: generate_signals_row_def Let_def
        split: sum.splits prod.splits if_splits dest!: min_target_of_eq)

lemma row_rejected:
  assumes "calculate_position_size cfg (row_Entry row) (row_SL row) (capital cfg)
             = Inr (qty, pv)"
    and "row_Target row < row_Entry row * (1 + calculate_charges pv / pv + 0.02)"
  shows "generate_signals_row cfg day row \<noteq> Inr (Some s)"
  using assms
  by (auto simp add: generate_signals_row_def Let_def
        split: sum.splits prod.splits if_splits dest!: min_target_of_eq)

lemma generate_signals_from_rows:
  "generate_signals cfg day df = Inr sigs \<Longrightarrow> s \<in> set sigs \<Longrightarrow>
     \<exists>row \<in> set df. generate_signals_row cfg day row = Inr (Some s)"
proof (induction df arbitrary: sigs)
  case Nil
  then show ?case by simp
next
  case (Cons row df)
  then show ?case
    by (auto split: sum.splits option.splits)
qed

text \<open>
  C5: a signal that the loop of \<open>generate_signals\<close> emits for a row has a notional that is
  not zero, carries the round-trip charges of that notional, and its first target is at
  least entry times (1 + charges / notional + 0.02). A sized row whose target is below
  that price gives no signal. So every signal in the list \<open>generate_signals\<close> returns
  has its first target at or above its break-even price.
\<close>

theorem C5_target_clears_breakeven:
  "(generate_signals_row cfg day row = Inr (Some s) \<longrightarrow>
      sig_Position s \<noteq> 0
      \<and> sig_Charges s = calculate_charges (sig_Position s)
      \<and> sig_Entry s * (1 + sig_Charges s / sig_Position s + 0.02) \<le> sig_T1 s)
   \<and> (calculate_position_size cfg (row_Entry row) (row_SL row) (capital cfg) = Inr (qty, pv)
        \<and> row_Target row < row_Entry row * (1 + calculate_charges pv / pv + 0.02)
      \<longrightarrow> (\<forall>s'. generate_signals_row cfg day row \<noteq> Inr (Some s')))
   \<and> (generate_signals cfg day df = Inr sigs \<longrightarrow>
        (\<forall>x \<in> set sigs.
           sig_Position x \<noteq> 0
           \<and> sig_Entry x * (1 + calculate_charges (sig_Position x) / sig_Position x + 0.02)
               \<le> sig_T1 x))"
proof (intro conjI impI allI ballI)
  assume a: "generate_signals_row cfg day row = Inr (Some s)"
  show "sig_Position s \<noteq> 0" by (rule row_signal(1)[OF a])
  show "sig_Charges s = calculate_charges (sig_Position s)" by (rule row_signal(2)[OF a])
  show "sig_Entry s * (1 + sig_Charges s / sig_Position s + 0.02) \<le> sig_T1 s"
    by (rule row_signal(6)[OF a])
next
  fix s'
  assume "calculate_position_size cfg (row_Entry row) (row_SL row) (capital cfg) = Inr (qty, pv)
        \<and> row_Target row < row_Entry row * (1 + calculate_charges pv / pv + 0.02)"
  then show "generate_signals_row cfg day row \<noteq> Inr (Some s')"
    using row_rejected by blast
next
  fix x assume g: "generate_signals cfg day df = Inr sigs" and x: "x \<in> set sigs"
  from generate_signals_from_rows[OF g x]
  obtain r where r: "generate_signals_row cfg day r = Inr (Some x)" by blast
  show "sig_Position x \<noteq> 0" by (rule row_signal(1)[OF r])
  show "sig_Entry x * (1 + calculate_charges (sig_Position x) / sig_Position x + 0.02)
               \<le> sig_T1 x"
    using row_signal(6)[OF r] row_signal(2)[OF r] by simp
qed

lemmas analyzer_defs =
  generate_signals_row_def min_target_of_def calculate_position_size_def
  calculate_charges_def RISK_PER_TRADE_def MAX_POSITION_PCT_def py_int_def py_div_def
  py_round2_def example_config_def example_row_def Let_def

theorem C5_target_clears_breakeven_witness:
  "generate_signals_row example_config 1 (example_row 95 110)
     = Inr (Some
         \<lparr>sig_Date = 1, sig_Stock = ''ABC'', sig_Entry = 100, sig_SL = 95, sig_T1 = 110,
          sig_T2 = 116, sig_RR = 2, sig_Quantity = 100, sig_Position = 10000,
          sig_Risk_Rs = 500, sig_Risk_Pct = 5, sig_Charges = 1146 / 25,
          sig_Breakeven = 5123 / 50, sig_Net_Expectancy_Pct = 477 / 50, sig_ATR = 4,
          sig_Mode = ''standard''\<rparr>)
   \<and> (100::real) * (1 + (1146 / 25) / 10000 + 0.02) \<le> 110
   \<and> calculate_position_size example_config (row_Entry (example_row 99 102))
        (row_SL (example_row 99 102)) (capital example_config) = Inr (100, 10000)
   \<and> row_Target (example_row 99 102)
        < row_Entry (example_row 99 102) * (1 + calculate_charges 10000 / 10000 + 0.02)
   \<and> generate_signals_row example_config 1 (example_row 99 102) = Inr None"
proof -
  let ?s = "\<lparr>sig_Date = 1, sig_Stock = ''ABC'', sig_Entry = 100, sig_SL = 95, sig_T1 = 110,
          sig_T2 = 116, sig_RR = 2, sig_Quantity = 100, sig_Position = 10000,
          sig_Risk_Rs = 500, sig_Risk_Pct = 5, sig_Charges = 1146 / 25,
          sig_Breakeven = 5123 / 50, sig_Net_Expectancy_Pct = 477 / 50, sig_ATR = 4,
          sig_Mode = ''standard''\<rparr>"
  have a: "generate_signals_row example_config 1 (example_row 95 110) = Inr (Some ?s)"
    by (simp add: analyzer_defs)
  have b: "calculate_position_size example_config (row_Entry (example_row 99 102))
        (row_SL (example_row 99 102)) (capital example_config) = Inr (100, 10000)"
    by (simp add: analyzer_defs)
  have c: "row_Target (example_row 99 102)
        < row_Entry (example_row 99 102) * (1 + calculate_charges 10000 / 10000 + 0.02)"
    by (simp add: analyzer_defs)
  have d: "generate_signals_row example_config 1 (example_row 99 102) = Inr None"
    by (simp add: analyzer_defs)
  have "sig_Entry ?s * (1 + sig_Charges ?s / sig_Position ?s + 0.02) \<le> sig_T1 ?s"
    using C5_target_clears_breakeven[of example_config 1 "example_row 95 110" ?s] a by blast
  then have e: "(100::real) * (1 + (1146 / 25) / 10000 + 0.02) \<le> 110" by simp
  show ?thesis using a b c d e by blast
qed



lemma rank_key_le: "rank_key a \<le> rank_key b \<longleftrightarrow> outranks a b"
  by (auto simp add: rank_key_def outranks_def less_eq_prod_def)

lemma sorted_take_drop:
  assumes "sorted (map f ys)" "a \<in> set (take n ys)" "b \<in> set (drop n ys)"
  shows "f a \<le> f b"
proof -
  have "sorted (map f (take n ys) @ map f (drop n ys))"
    using assms(1) by (simp flip: map_append)
  then show ?thesis using assms(2,3) by (auto simp add: sorted_append)
qed

lemma select_within:
  "int (length signals) \<le> max_trades \<Longrightarrow> select_top_trades signals max_trades = signals"
  by (simp add: select_top_trades_def)

lemma select_truncates:
  assumes "0 \<le> max_trades" "max_trades < int (length signals)"
  shows "select_top_trades signals max_trades
           = take (nat max_trades) (sort_key rank_key signals)"
  using assms by (simp add: select_top_trades_def head_df_def)

lemma select_length:
  assumes "0 \<le> max_trades"
  shows "length (select_top_trades signals max_trades) = min (length signals) (nat max_trades)"
  using assms by (auto simp add: select_top_trades_def head_df_def)

lemma select_best:
  assumes "a \<in> set (take n (sort_key rank_key signals))"
    and "b \<in> set (drop n (sort_key rank_key signals))"
  shows "outranks a b"
  using sorted_take_drop[OF sorted_sort_key assms] by (simp add: rank_key_le)

lemma select_partition:
  "mset (take n (sort_key rank_key signals)) + mset (drop n (sort_key rank_key signals))
     = mset signals"
  by (simp flip: mset_append)

lemma main_full:
  "MAX_TRADES cfg - int (check_existing_positions tf) \<le> 0 \<Longrightarrow>
     analyzer_main cfg day df tf = Inr None"
  by (simp add: analyzer_main_def Let_def)

lemma main_output:
  assumes "analyzer_main cfg day df tf = Inr (Some out)"
  shows "\<exists>signals. generate_signals cfg day df = Inr signals
      \<and> 0 < MAX_TRADES cfg - int (check_existing_positions tf)
      \<and> out = select_top_trades signals (MAX_TRADES cfg - int (check_existing_positions tf))"
  using assms by (auto simp add: analyzer_main_def Let_def split: if_splits sum.splits)

lemma generate_signals_nonempty_df:
  "generate_signals cfg day df = Inr generated \<Longrightarrow> generated \<noteq> [] \<Longrightarrow> df \<noteq> []"
  by (cases df) auto

lemma main_selects:
  assumes "0 < MAX_TRADES cfg - int (check_existing_positions tf)"
    and "generate_signals cfg day df = Inr generated" and "generated \<noteq> []"
  shows "analyzer_main cfg day df tf
           = Inr (Some (select_top_trades generated
                          (MAX_TRADES cfg - int (check_existing_positions tf))))"
  using assms generate_signals_nonempty_df[OF assms(2,3)]
  by (simp add: analyzer_main_def Let_def)

lemma main_nothing:
  assumes "generate_signals cfg day df = Inr []"
  shows "analyzer_main cfg day df tf = Inr None"
  using assms by (simp add: analyzer_main_def Let_def)

text \<open>
  C9: for a number of free slots that is not negative, the selection has as many signals
  as the smaller of the signal count and the free slots. Signals within capacity pass
  through unchanged. When it truncates, the selection and the signals left out make up
  the signals given, and every selected signal outranks every signal left out: its
  reward:risk is higher, or equal with a net expectancy at least as high. With no free
  slot \<open>main\<close> returns before it selects and writes no signal file; when it does write
  one, its rows are the selection from the generated signals for the free slots. With a
  free slot and at least one generated signal \<open>main\<close> does write the file, and its rows
  are that selection, as many as the smaller of the generated signals and the free
  slots; with no generated signal it writes none.
\<close>

theorem C9_ranking_and_capacity:
  "(0 \<le> max_trades \<longrightarrow>
      length (select_top_trades signals max_trades) = min (length signals) (nat max_trades))
   \<and> (int (length signals) \<le> max_trades \<longrightarrow> select_top_trades signals max_trades = signals)
   \<and> (0 \<le> max_trades \<and> max_trades < int (length signals) \<longrightarrow>
        select_top_trades signals max_trades
          = take (nat max_trades) (sort_key rank_key signals)
        \<and> mset (select_top_trades signals max_trades)
            + mset (drop (nat max_trades) (sort_key rank_key signals)) = mset signals
        \<and> (\<forall>a \<in> set (select_top_trades signals max_trades).
             \<forall>b \<in> set (drop (nat max_trades) (sort_key rank_key signals)). outranks a b))
   \<and> (MAX_TRADES cfg - int (check_existing_positions tf) \<le> 0 \<longrightarrow>
        analyzer_main cfg day df tf = Inr None)
   \<and> (analyzer_main cfg day df tf = Inr (Some out) \<longrightarrow>
        (\<exists>generated.
           generate_signals cfg day df = Inr generated
           \<and> out = select_top_trades generated
                     (MAX_TRADES cfg - int (check_existing_positions tf))
           \<and> length out
               = min (length generated)
                   (nat (MAX_TRADES cfg - int (check_existing_positions tf)))))
   \<and> (0 < MAX_TRADES cfg - int (check_existing_positions tf)
        \<and> generate_signals cfg day df = Inr produced \<and> produced \<noteq> [] \<longrightarrow>
        analyzer_main cfg day df tf
          = Inr (Some (select_top_trades produced
                         (MAX_TRADES cfg - int (check_existing_positions tf))))
        \<and> length (select_top_trades produced
                     (MAX_TRADES cfg - int (check_existing_positions tf)))
            = min (length produced)
                (nat (MAX_TRADES cfg - int (check_existing_positions tf))))
   \<and> (generate_signals cfg day df = Inr [] \<longrightarrow> analyzer_main cfg day df tf = Inr None)"
proof (intro conjI impI ballI)
  assume "0 \<le> max_trades"
  then show "length (select_top_trades signals max_trades)
               = min (length signals) (nat max_trades)"
    by (rule select_length)
next
  assume "int (length signals) \<le> max_trades"
  then show "select_top_trades signals max_trades = signals"
    by (rule select_within)
next
  assume a: "0 \<le> max_trades \<and> max_trades < int (length signals)"
  then show t: "select_top_trades signals max_trades
                  = take (nat max_trades) (sort_key rank_key signals)"
    using select_truncates by blast
  show "mset (select_top_trades signals max_trades)
            + mset (drop (nat max_trades) (sort_key rank_key signals)) = mset signals"
    unfolding t by (rule select_partition)
  fix x y
  assume "x \<in> set (select_top_trades signals max_trades)"
    and "y \<in> set (drop (nat max_trades) (sort_key rank_key signals))"
  then show "outranks x y"
    unfolding t by (rule select_best)
next
  assume "MAX_TRADES cfg - int (check_existing_positions tf) \<le> 0"
  then show "analyzer_main cfg day df tf = Inr None"
    by (rule main_full)
next
  assume "analyzer_main cfg day df tf = Inr (Some out)"
  from main_output[OF this]
  obtain generated where g: "generate_signals cfg day df = Inr generated"
    and p: "0 < MAX_TRADES cfg - int (check_existing_positions tf)"
    and o: "out = select_top_trades generated
                    (MAX_TRADES cfg - int (check_existing_positions tf))"
    by blast
  have "length out = min (length generated)
                       (nat (MAX_TRADES cfg - int (check_existing_positions tf)))"
    unfolding o using p by (intro select_length) simp
  then show "\<exists>generated.
           generate_signals cfg day df = Inr generated
           \<and> out = select_top_trades generated
                     (MAX_TRADES cfg - int (check_existing_positions tf))
           \<and> length out
               = min (length generated)
                   (nat (MAX_TRADES cfg - int (check_existing_positions tf)))"
    using g o by blast
next
  assume a: "0 < MAX_TRADES cfg - int (check_existing_positions tf)
        \<and> generate_signals cfg day df = Inr produced \<and> produced \<noteq> []"
  then show "analyzer_main cfg day df tf
          = Inr (Some (select_top_trades produced
                         (MAX_TRADES cfg - int (check_existing_positions tf))))"
    using main_selects by blast
  from a show "length (select_top_trades produced
                     (MAX_TRADES cfg - int (check_existing_positions tf)))
            = min (length produced)
                (nat (MAX_TRADES cfg - int (check_existing_positions tf)))"
    by (intro select_length) simp
next
  assume "generate_signals cfg day df = Inr []"
  then show "analyzer_main cfg day df tf = Inr None"
    by (rule main_nothing)
qed

theorem C9_ranking_and_capacity_witness:
  "(0::int) \<le> 2
   \<and> (2::int) < int (length [example_signal ''A'' 2 5, example_signal ''B'' 3 1,
                               example_signal ''C'' 2 7])
   \<and> select_top_trades [example_signal ''A'' 2 5, example_signal ''B'' 3 1,
        example_signal ''C'' 2 7] 2
       = [example_signal ''B'' 3 1, example_signal ''C'' 2 7]
   \<and> length (select_top_trades [example_signal ''A'' 2 5, example_signal ''B'' 3 1,
        example_signal ''C'' 2 7] 2) = 2
   \<and> MAX_TRADES example_config
        - int (check_existing_positions (Some (replicate 5 (example_position 95)))) \<le> 0
   \<and> analyzer_main example_config 1 [example_row 95 110]
        (Some (replicate 5 (example_position 95))) = Inr None
   \<and> 0 < MAX_TRADES example_config
        - int (check_existing_positions (Some (replicate 4 (example_position 95))))
   \<and> analyzer_main example_config 1
        [example_row 95 110, example_row 95 120, example_row 99 102]
        (Some (replicate 4 (example_position 95)))
       = Inr (Some
           [\<lparr>sig_Date = 1, sig_Stock = ''ABC'', sig_Entry = 100, sig_SL = 95, sig_T1 = 120,
             sig_T2 = 126, sig_RR = 2, sig_Quantity = 100, sig_Position = 10000,
             sig_Risk_Rs = 500, sig_Risk_Pct = 5, sig_Charges = 1146 / 25,
             sig_Breakeven = 5123 / 50, sig_Net_Expectancy_Pct = 977 / 50, sig_ATR = 4,
             sig_Mode = ''standard''\<rparr>])"
proof -
  let ?sigs = "[example_signal ''A'' 2 5, example_signal ''B'' 3 1, example_signal ''C'' 2 7]"
  let ?lo = "\<lparr>sig_Date = 1, sig_Stock = ''ABC'', sig_Entry = 100, sig_SL = 95, sig_T1 = 110,
             sig_T2 = 116, sig_RR = 2, sig_Quantity = 100, sig_Position = 10000,
             sig_Risk_Rs = 500, sig_Risk_Pct = 5, sig_Charges = 1146 / 25,
             sig_Breakeven = 5123 / 50, sig_Net_Expectancy_Pct = 477 / 50, sig_ATR = 4,
             sig_Mode = ''standard''\<rparr>"
  let ?hi = "\<lparr>sig_Date = 1, sig_Stock = ''ABC'', sig_Entry = 100, sig_SL = 95, sig_T1 = 120,
             sig_T2 = 126, sig_RR = 2, sig_Quantity = 100, sig_Position = 10000,
             sig_Risk_Rs = 500, sig_Risk_Pct = 5, sig_Charges = 1146 / 25,
             sig_Breakeven = 5123 / 50, sig_Net_Expectancy_Pct = 977 / 50, sig_ATR = 4,
             sig_Mode = ''standard''\<rparr>"
  let ?df = "[example_row 95 110, example_row 95 120, example_row 99 102]"
  let ?four = "Some (replicate 4 (example_position 95))"
  have h1: "(0::int) \<le> 2" by simp
  have h2: "(2::int) < int (length ?sigs)" by simp
  have v: "select_top_trades ?sigs 2 = [example_signal ''B'' 3 1, example_signal ''C'' 2 7]"
    by (simp add: select_top_trades_def head_df_def rank_key_def example_signal_def
          less_eq_prod_def)
  have h3: "MAX_TRADES example_config
        - int (check_existing_positions (Some (replicate 5 (example_position 95)))) \<le> 0"
    by (simp add: MAX_TRADES_def example_config_def check_existing_positions_def
          example_position_def)
  have l: "length (select_top_trades ?sigs 2) = 2"
    using C9_ranking_and_capacity[of 2 ?sigs] h1 by simp
  have f: "analyzer_main example_config 1 [example_row 95 110]
        (Some (replicate 5 (example_position 95))) = Inr None"
    using C9_ranking_and_capacity[of _ _ example_config
        "Some (replicate 5 (example_position 95))" 1 "[example_row 95 110]"] h3 by blast
  have h4: "MAX_TRADES example_config - int (check_existing_positions ?four) = 1"
    by (simp add: MAX_TRADES_def example_config_def check_existing_positions_def
          example_position_def)
  have h5: "generate_signals example_config 1 ?df = Inr [?lo, ?hi]"
    by (simp add: analyzer_defs)
  have h6: "[?lo, ?hi] \<noteq> []" by simp
  have top: "select_top_trades [?lo, ?hi] 1 = [?hi]"
    by (simp add: select_top_trades_def head_df_def rank_key_def less_eq_prod_def)
  have p: "0 < MAX_TRADES example_config - int (check_existing_positions ?four)"
    by (simp only: h4)
  have "analyzer_main example_config 1 ?df ?four
          = Inr (Some (select_top_trades [?lo, ?hi]
                         (MAX_TRADES example_config - int (check_existing_positions ?four))))"
    by (rule C9_ranking_and_capacity[where cfg = example_config and tf = ?four
          and day = 1 and df = ?df and produced = "[?lo, ?hi]",
          THEN conjunct2, THEN conjunct2, THEN conjunct2, THEN conjunct2, THEN conjunct2,
          THEN conjunct1, THEN mp, THEN conjunct1])
       (intro conjI, rule p, rule h5, rule h6)
  then have w: "analyzer_main example_config 1 ?df ?four = Inr (Some [?hi])"
    by (simp only: h4 top)
  show ?thesis using h1 h2 v l h3 f p w by blast
qed

end
